theory Spec2Isabelle
  imports Main
begin

section \<open>JavaScript values\<close>

text \<open>
  The executor (src/executor/sauce.js) reads its configuration from environment variables
  and command-line arguments, which are strings or booleans that may be missing, and reads
  JSON documents sent by the locks server. A configuration slot is a \<open>'a js\<close>: the value
  \<open>undefined\<close>, the value \<open>null\<close>, or a proper value. A parsed JSON document, and the
  token taken out of it, is a \<open>jsval\<close>.
\<close>

datatype 'a js = Undefined | Null | Val 'a

datatype jsval =
    JUndefined
  | JNull
  | JBool bool
  | JNum int
  | JStr string
  | JArr "jsval list"
  | JObj "(string \<times> jsval) list"

text \<open>Truthiness, as \<open>if (x)\<close>, \<open>!x\<close> and \<open>x && y\<close> test it.\<close>

fun truthy_str :: "string js \<Rightarrow> bool" where
  "truthy_str (Val s) = (s \<noteq> [])"
| "truthy_str Undefined = False"
| "truthy_str Null = False"

fun truthy_bool :: "bool js \<Rightarrow> bool" where
  "truthy_bool (Val b) = b"
| "truthy_bool Undefined = False"
| "truthy_bool Null = False"

fun truthy :: "jsval \<Rightarrow> bool" where
  "truthy JUndefined = False"
| "truthy JNull = False"
| "truthy (JBool b) = b"
| "truthy (JNum n) = (n \<noteq> 0)"
| "truthy (JStr s) = (s \<noteq> [])"
| "truthy (JArr xs) = True"
| "truthy (JObj fs) = True"

text \<open>
  \<open>get_prop v k\<close> is the property read \<open>v.k\<close> of a value that is neither \<open>null\<close> nor
  \<open>undefined\<close> (the executor reads properties of a parsed document only after testing
  that it is truthy): the field of an object, and \<open>undefined\<close> where there is none.
\<close>

fun get_prop :: "jsval \<Rightarrow> string \<Rightarrow> jsval" where
  "get_prop (JObj fs) k = (case map_of fs k of None \<Rightarrow> JUndefined | Some v \<Rightarrow> v)"
| "get_prop v k = JUndefined"

text \<open>String concatenation \<open>"" + x\<close> of a configuration slot.\<close>

fun js_string :: "string js \<Rightarrow> string" where
  "js_string (Val s) = s"
| "js_string Undefined = ''undefined''"
| "js_string Null = ''null''"

text \<open>\<open>indexOf s needle\<close> is \<open>s.indexOf(needle)\<close>: the first position of \<open>needle\<close> in \<open>s\<close>, or \<open>-1\<close>.\<close>

fun starts_with :: "string \<Rightarrow> string \<Rightarrow> bool" where
  "starts_with s [] = True"
| "starts_with [] (n # ns) = False"
| "starts_with (c # cs) (n # ns) = (c = n \<and> starts_with cs ns)"

fun index_from :: "int \<Rightarrow> string \<Rightarrow> string \<Rightarrow> int" where
  "index_from i [] needle = (if needle = [] then i else - 1)"
| "index_from i (c # cs) needle =
     (if starts_with (c # cs) needle then i else index_from (i + 1) cs needle)"

definition indexOf :: "string \<Rightarrow> string \<Rightarrow> int" where
  "indexOf s needle = index_from 0 s needle"


section \<open>Configuration\<close>

text \<open>The module's \<open>config\<close> object (lines 246-265), which \<open>validateConfig\<close> fills in.\<close>

record config =
  username :: "string js"
  accessKey :: "string js"
  sauceConnectVersion :: "string js"
  sauceTunnelId :: "string js"
  sharedSauceParentAccount :: "string js"
  tunnelTimeout :: "string js"
  useTunnels :: "bool js"
  fastFailRegexps :: "string js"
  locksServerLocation :: "string js"
  maxTunnels :: int
  locksOutageTimeout :: int
  locksPollingInterval :: int
  locksRequestTimeout :: int

definition config_init :: config where
  "config_init = \<lparr>
     username = Null, accessKey = Null, sauceConnectVersion = Null,
     sauceTunnelId = Null, sharedSauceParentAccount = Null, tunnelTimeout = Null,
     useTunnels = Null, fastFailRegexps = Null,
     locksServerLocation = Null,
     maxTunnels = 1,
     locksOutageTimeout = 1000 * 60 * 5,
     locksPollingInterval = 2500,
     locksRequestTimeout = 2500 \<rparr>"

text \<open>
  The command-line arguments the executor reads, typed as its help table declares them
  (lines 549-584), and the environment variables it reads.
\<close>

record argv =
  sauce_browsers :: "string js"
  sauce_browser :: "string js"
  sauce_create_tunnels :: "bool js"
  sauce_tunnel_id :: "string js"
  shared_sauce_parent_account :: "string js"

record env =
  SAUCE_USERNAME :: "string js"
  SAUCE_ACCESS_KEY :: "string js"
  SAUCE_CONNECT_VERSION :: "string js"
  SAUCE_TUNNEL_CLOSE_TIMEOUT :: "string js"
  SAUCE_TUNNEL_FAST_FAIL_REGEXPS :: "string js"
  LOCKS_SERVER :: "string js"

datatype config_error =
    MissingConfiguration
  | OnlyOneTunnelArg
  | SharedParentNeedsTunnelId

text \<open>Lines 359-365: a trailing \<open>/\<close> of the locks server location is removed.\<close>

fun strip_trailing_slash :: "string js \<Rightarrow> string js" where
  "strip_trailing_slash (Val s) =
     (if length s > 0 then (if last s = CHR ''/'' then Val (butlast s) else Val s) else Val s)"
| "strip_trailing_slash Undefined = Undefined"
| "strip_trailing_slash Null = Null"

text \<open>Lines 347-365: the assignments \<open>validateConfig\<close> makes before it validates anything.\<close>

definition read_config :: "argv \<Rightarrow> env \<Rightarrow> config \<Rightarrow> config" where
  "read_config av ev c = c\<lparr>
     username := SAUCE_USERNAME ev,
     accessKey := SAUCE_ACCESS_KEY ev,
     sauceConnectVersion := SAUCE_CONNECT_VERSION ev,
     sauceTunnelId := sauce_tunnel_id av,
     sharedSauceParentAccount := shared_sauce_parent_account av,
     useTunnels := Val (truthy_bool (sauce_create_tunnels av)),
     tunnelTimeout := SAUCE_TUNNEL_CLOSE_TIMEOUT ev,
     fastFailRegexps := SAUCE_TUNNEL_FAST_FAIL_REGEXPS ev,
     locksServerLocation := strip_trailing_slash (LOCKS_SERVER ev) \<rparr>"

text \<open>
  Lines 367-399: \<open>parameterWarnings\<close> pairs each checked slot with its \<open>required\<close> flag; the
  loop clears \<open>valid\<close> at a required slot that is falsy (the log lines are left out).
\<close>

definition parameterWarnings :: "((config \<Rightarrow> string js) \<times> bool) list" where
  "parameterWarnings = [(username, True), (accessKey, True), (sauceConnectVersion, False)]"

definition check_parameters :: "config \<Rightarrow> bool" where
  "check_parameters c =
     fold (\<lambda>(k, required) valid.
             if \<not> truthy_str (k c) then (if required then False else valid) else valid)
          parameterWarnings True"

text \<open>
  \<open>validateConfig g av ev c\<close>: \<open>av\<close> and \<open>ev\<close> are \<open>runOpts.argv\<close> and \<open>runOpts.env\<close>, \<open>c\<close> is
  the module's config object and \<open>g\<close> the identifier \<open>guid()\<close> returns if it is called.
  \<open>Inl\<close> is the error thrown, \<open>Inr\<close> the config returned.
\<close>

definition validateConfig :: "string \<Rightarrow> argv \<Rightarrow> env \<Rightarrow> config \<Rightarrow> config_error + config" where
  "validateConfig g av ev c =
     (let c1 = read_config av ev c in
      if truthy_str (sauce_browsers av) \<or> truthy_str (sauce_browser av) then
        if \<not> check_parameters c1 then Inl MissingConfiguration
        else if truthy_bool (sauce_create_tunnels av) \<and> truthy_str (sauce_tunnel_id av)
          then Inl OnlyOneTunnelArg
        else if truthy_bool (sauce_create_tunnels av)
                \<and> truthy_str (shared_sauce_parent_account av)
          then Inl SharedParentNeedsTunnelId
        else if \<not> truthy_str (sauceTunnelId c1) \<and> truthy_bool (useTunnels c1)
          then Inr (c1\<lparr>sauceTunnelId := Val g\<rparr>)
        else Inr c1
      else Inr c1)"


section \<open>Lock client\<close>

text \<open>
  What the \<open>request\<close> library hands to the completion function: \<open>err\<close> is the transport
  error (\<open>None\<close> when there is none; timeouts and refused connections are errors, a status
  other than 2xx is not), \<open>statusCode\<close> the HTTP status, and \<open>parsed\<close> the outcome of
  \<open>JSON.parse(body)\<close>, \<open>None\<close> when it throws.
\<close>

datatype reply = Reply (err: "string option") (statusCode: nat) (parsed: "jsval option")

datatype exn = SyntaxError

datatype lock_error =
    TransportError string
  | NotAccepted
  | InvalidOrEmpty jsval
  | GaveUp exn

datatype payload = Form "(string \<times> string) list" | Json jsval

datatype request = Post (url: string) (timeout: int) (payload: payload)

text \<open>
  What a call of the lock client does, in order: HTTP requests issued, timers set, and calls
  of the caller's \<open>callback(error, value)\<close> (\<open>None\<close> and \<open>JUndefined\<close> for arguments that
  are \<open>null\<close> or not passed). The callback is taken not to throw.
\<close>

datatype effect =
    Http request
  | SetTimeout int
  | Callback "lock_error option" jsval

fun is_callback :: "effect \<Rightarrow> bool" where
  "is_callback (Callback e v) = True"
| "is_callback (Http r) = False"
| "is_callback (SetTimeout d) = False"

fun is_http :: "effect \<Rightarrow> bool" where
  "is_http (Http r) = True"
| "is_http (Callback e v) = False"
| "is_http (SetTimeout d) = False"

definition claim_request :: "config \<Rightarrow> request" where
  "claim_request opts =
     Post (js_string (locksServerLocation opts) @ ''/claim'') (locksRequestTimeout opts) (Form [])"

text \<open>
  Lines 53-72, the body of the \<open>try\<close> block: \<open>Inr\<close> is the pair of arguments with which it
  returns \<open>callback(...)\<close>, \<open>Inl\<close> the exception that reaches the \<open>catch\<close> block.
\<close>

definition claim_response :: "reply \<Rightarrow> exn + (lock_error option \<times> jsval)" where
  "claim_response r =
     (case err r of
        Some e \<Rightarrow> Inr (Some (TransportError e), JUndefined)
      | None \<Rightarrow>
          (case parsed r of
             None \<Rightarrow> Inl SyntaxError
           | Some result \<Rightarrow>
               if truthy result then
                 if truthy (get_prop result ''accepted'')
                 then Inr (None, JObj [(''token'', get_prop result ''token'')])
                 else Inr (Some NotAccepted, JUndefined)
               else Inr (Some (InvalidOrEmpty result), JUndefined)))"

text \<open>
  Lines 45-97, \<open>poll\<close>: \<open>t0\<close> is \<open>pollingStartTime\<close>; the list holds, for each request in
  turn, the reply and the reading of \<open>Date.now()\<close> when it is handled. With no reply left
  the request is in flight.
\<close>

fun poll :: "config \<Rightarrow> int \<Rightarrow> (reply \<times> int) list \<Rightarrow> effect list" where
  "poll opts t0 [] = [Http (claim_request opts)]"
| "poll opts t0 ((r, now) # rest) =
     Http (claim_request opts) #
     (case claim_response r of
        Inr (e, v) \<Rightarrow> [Callback e v]
      | Inl ex \<Rightarrow>
          if now - t0 > locksOutageTimeout opts
          then [Callback (Some (GaveUp ex)) JUndefined]
          else SetTimeout (locksPollingInterval opts) # poll opts t0 rest)"

definition acquire :: "config \<Rightarrow> int \<Rightarrow> (reply \<times> int) list \<Rightarrow> effect list" where
  "acquire opts t0 replies =
     (if truthy_str (locksServerLocation opts) then poll opts t0 replies
      else [Callback None JUndefined])"

definition release_request :: "config \<Rightarrow> jsval \<Rightarrow> request" where
  "release_request opts token =
     Post (js_string (locksServerLocation opts) @ ''/release'') (locksRequestTimeout opts)
          (Json (JObj [(''token'', token)]))"

text \<open>Lines 105-124, \<open>release\<close>: \<open>r\<close> is the outcome of the release request.\<close>

definition release :: "config \<Rightarrow> jsval \<Rightarrow> reply \<Rightarrow> effect list" where
  "release opts token r =
     (if truthy_str (locksServerLocation opts)
      then [Http (release_request opts token), Callback None JUndefined]
      else [Callback None JUndefined])"

text \<open>Lines 325-331: the hooks \<open>stage\<close> and \<open>wrapup\<close> of the executor.\<close>

definition stage :: "config \<Rightarrow> int \<Rightarrow> (reply \<times> int) list \<Rightarrow> effect list" where
  "stage locks t0 replies = acquire locks t0 replies"

definition wrapup :: "config \<Rightarrow> jsval \<Rightarrow> reply \<Rightarrow> effect list" where
  "wrapup locks info r = release locks info r"


section \<open>Tunnel supervisor\<close>

text \<open>The part of the settings module that \<open>connect\<close> reads; \<open>tempDir\<close> is the resolved path.\<close>

record settings =
  tempDir :: string
  buildId :: string
  debug :: bool

text \<open>The options object handed to the launcher (lines 175-188).\<close>

record sauce_options =
  so_username :: "string js"
  so_accessKey :: "string js"
  tunnelIdentifier :: "string js"
  readyFileId :: "string js"
  verbose :: bool
  verboseDebugging :: bool
  logfile :: string
  port :: int
  so_fastFailRegexps :: "string js option"

definition BASE_SELENIUM_PORT_OFFSET :: int where
  "BASE_SELENIUM_PORT_OFFSET = 56000"

text \<open>The default of \<open>MAX_CONNECT_RETRIES\<close> (line 19), used when the environment sets none.\<close>

definition MAX_CONNECT_RETRIES :: int where
  "MAX_CONNECT_RETRIES = 10"

text \<open>
  Line 187 reads \<open>this.options.fastFailRegexpss\<close>. The options object is a copy of the
  module's config object, which has no property of that name, so the read is \<open>undefined\<close>.
\<close>

definition fastFailRegexpss :: "config \<Rightarrow> string js" where
  "fastFailRegexpss opts = Undefined"

definition logFilePath :: "settings \<Rightarrow> string js \<Rightarrow> string" where
  "logFilePath st tunnelId =
     tempDir st @ ''/build-'' @ buildId st @ ''_sauceconnect_'' @ js_string tunnelId @ ''.log''"

definition sauceOptions :: "settings \<Rightarrow> config \<Rightarrow> sauce_options" where
  "sauceOptions st opts =
     (let tunnelId = sauceTunnelId opts;
          base = \<lparr> so_username = username opts,
                   so_accessKey = accessKey opts,
                   tunnelIdentifier = tunnelId,
                   readyFileId = tunnelId,
                   verbose = debug st,
                   verboseDebugging = debug st,
                   logfile = logFilePath st tunnelId,
                   port = BASE_SELENIUM_PORT_OFFSET,
                   so_fastFailRegexps = None \<rparr>
      in if truthy_str (fastFailRegexps opts)
         then base\<lparr>so_fastFailRegexps := Some (fastFailRegexpss opts)\<rparr>
         else base)"

text \<open>
  The process-wide retry state (lines 17 and 21), the child process handle, and what the
  launcher reports to its completion function: the process it started, or an error with
  its \<open>message\<close>.
\<close>

record shared =
  connectFailures :: int
  BAILED :: bool

definition shared_init :: shared where
  "shared_init = \<lparr> connectFailures = 1, BAILED = False \<rparr>"

type_synonym proc = nat

datatype launch_result = Started proc | Failed "string js"

datatype rejection =
    CouldNotStart string
  | Bailed
  | FailedAfter int

datatype verdict = Resolve proc | Reject rejection | Retry

text \<open>Line 197: the test for the launcher's fatal error.\<close>

definition could_not_start :: "string js \<Rightarrow> bool" where
  "could_not_start m =
     (truthy_str m \<and> indexOf (js_string m) ''Could not start Sauce Connect'' > - 1)"

text \<open>
  Lines 192-224, the launcher's completion function: what it decides and what it does to
  the shared retry state. \<open>mx\<close> is \<open>MAX_CONNECT_RETRIES\<close>.
\<close>

definition launcher_callback :: "int \<Rightarrow> launch_result \<Rightarrow> shared \<Rightarrow> verdict \<times> shared" where
  "launcher_callback mx r s =
     (case r of
        Started p \<Rightarrow> (Resolve p, s)
      | Failed m \<Rightarrow>
          if could_not_start m then (Reject (CouldNotStart (js_string m)), s)
          else if BAILED s then
            (Reject Bailed, s\<lparr>connectFailures := connectFailures s + 1\<rparr>)
          else
            (let s1 = s\<lparr>connectFailures := connectFailures s + 1\<rparr> in
             if connectFailures s1 \<ge> mx
             then (Reject (FailedAfter (connectFailures s1)), s1\<lparr>BAILED := True\<rparr>)
             else (Retry, s1)))"

record tunnel =
  options :: config
  tunnelInfo :: "proc option"

datatype 'e promise = Pending | Resolved | Rejected 'e

text \<open>
  Lines 171-226, \<open>connect\<close>: the list holds what the launcher reports to this call's
  successive attempts; with none left the attempt is in flight. The result is the list of
  launcher invocations (their options), the state of the promise this call returns, the
  tunnel and the shared retry state. On a retry (line 217) the completion function returns
  the promise of the inner \<open>connect\<close> call to the launcher, which drops it: the inner
  call goes on invoking the launcher and changing the tunnel and the shared state, but
  nothing settles the promise of this call, which stays pending.
\<close>

fun connect ::
  "settings \<Rightarrow> int \<Rightarrow> launch_result list \<Rightarrow> tunnel \<Rightarrow> shared
     \<Rightarrow> sauce_options list \<times> rejection promise \<times> tunnel \<times> shared" where
  "connect st mx [] t s = ([sauceOptions st (options t)], Pending, t, s)"
| "connect st mx (r # rest) t s =
     (case launcher_callback mx r s of
        (Resolve p, s') \<Rightarrow>
          ([sauceOptions st (options t)], Resolved, t\<lparr>tunnelInfo := Some p\<rparr>, s')
      | (Reject e, s') \<Rightarrow> ([sauceOptions st (options t)], Rejected e, t, s')
      | (Retry, s') \<Rightarrow>
          (case connect st mx rest t s' of
             (calls, inner, t', s'') \<Rightarrow>
               (sauceOptions st (options t) # calls, Pending, t', s'')))"

text \<open>Lines 163-229, \<open>Tunnel.open\<close>.\<close>

definition open_tunnel ::
  "settings \<Rightarrow> int \<Rightarrow> launch_result list \<Rightarrow> tunnel \<Rightarrow> shared
     \<Rightarrow> sauce_options list \<times> rejection promise \<times> tunnel \<times> shared" where
  "open_tunnel st mx results t s = connect st mx results (t\<lparr>tunnelInfo := None\<rparr>) s"

text \<open>
  The launcher's reports of all supervisors of the process, in the order of their arrival:
  each is handled by the completion function on the shared state the earlier ones left.
\<close>

fun serve :: "int \<Rightarrow> launch_result list \<Rightarrow> shared \<Rightarrow> verdict list \<times> shared" where
  "serve mx [] s = ([], s)"
| "serve mx (r # rest) s =
     (case launcher_callback mx r s of
        (v, s') \<Rightarrow> (case serve mx rest s' of (vs, s'') \<Rightarrow> (v # vs, s'')))"

text \<open>
  Lines 231-243, \<open>Tunnel.close\<close>: the calls of the child process's \<open>close\<close> and the state of
  the returned promise; \<open>acked\<close> tells whether the launcher has called the completion
  function it was handed.
\<close>

definition close_tunnel :: "tunnel \<Rightarrow> bool \<Rightarrow> proc list \<times> 'e promise" where
  "close_tunnel t acked =
     (case tunnelInfo t of
        Some p \<Rightarrow> ([p], if acked then Resolved else Pending)
      | None \<Rightarrow> ([], Resolved))"


section \<open>Properties\<close>

subsection \<open>Substring search\<close>

lemma starts_with_iff: "starts_with s n \<longleftrightarrow> (\<exists>post. s = n @ post)"
  by (induction s n rule: starts_with.induct) auto

lemma index_from_found:
  "0 \<le> i \<Longrightarrow> (index_from i s n > - 1) = (\<exists>pre post. s = pre @ n @ post)"
proof (induction i s n rule: index_from.induct)
  case (1 i needle)
  then show ?case by auto
next
  case (2 i c cs needle)
  show ?case
  proof (cases "starts_with (c # cs) needle")
    case True
    then obtain post where "c # cs = needle @ post" by (auto simp: starts_with_iff)
    then have "c # cs = [] @ needle @ post" by simp
    then have "\<exists>pre post. c # cs = pre @ needle @ post" by blast
    with True 2 show ?thesis by simp
  next
    case False
    have "(\<exists>pre post. c # cs = pre @ needle @ post) = (\<exists>pre post. cs = pre @ needle @ post)"
    proof
      assume "\<exists>pre post. c # cs = pre @ needle @ post"
      then obtain pre post where e: "c # cs = pre @ needle @ post" by blast
      show "\<exists>pre post. cs = pre @ needle @ post"
      proof (cases pre)
        case Nil
        with e have "starts_with (c # cs) needle" by (auto simp: starts_with_iff)
        with False show ?thesis by simp
      next
        case (Cons a pre')
        with e have "cs = pre' @ needle @ post" by simp
        then show ?thesis by blast
      qed
    next
      assume "\<exists>pre post. cs = pre @ needle @ post"
      then obtain pre post where "cs = pre @ needle @ post" by blast
      then have "c # cs = (c # pre) @ needle @ post" by simp
      then show "\<exists>pre post. c # cs = pre @ needle @ post" by blast
    qed
    with False 2 show ?thesis by simp
  qed
qed

lemma indexOf_found: "(indexOf s n > - 1) = (\<exists>pre post. s = pre @ n @ post)"
  unfolding indexOf_def by (rule index_from_found) simp

lemma could_not_start_iff:
  "could_not_start (Val m) = (\<exists>pre post. m = pre @ ''Could not start Sauce Connect'' @ post)"
  unfolding could_not_start_def by (auto simp: indexOf_found)

lemma transient_message: "\<not> could_not_start (Val ''Tunnel timed out'')"
  by (simp add: could_not_start_def indexOf_def)

subsection \<open>The launcher's completion function\<close>


lemma launcher_callback_fatal:
  "could_not_start m \<Longrightarrow>
   launcher_callback mx (Failed m) s = (Reject (CouldNotStart (js_string m)), s)"
  by (simp add: launcher_callback_def)






lemma connect_rejected_keeps_tunnel:
  "fst (snd (connect st mx rs t s)) = Rejected e \<Longrightarrow>
   fst (snd (snd (connect st mx rs t s))) = t"
proof (cases rs)
  case Nil
  then show ?thesis by simp
next
  case (Cons r rest)
  assume rej: "fst (snd (connect st mx rs t s)) = Rejected e"
  obtain v s' where step: "launcher_callback mx r s = (v, s')" by (cases "launcher_callback mx r s")
  show ?thesis
  proof (cases v)
    case (Resolve p)
    with step Cons rej show ?thesis by simp
  next
    case (Reject e')
    with step Cons show ?thesis by simp
  next
    case Retry
    with step Cons rej show ?thesis by (simp add: split_beta)
  qed
qed

lemma open_tunnel_rejected_no_handle:
  "fst (snd (open_tunnel st mx rs t s)) = Rejected e \<Longrightarrow>
   tunnelInfo (fst (snd (snd (open_tunnel st mx rs t s)))) = None"
  unfolding open_tunnel_def using connect_rejected_keeps_tunnel [of st mx rs "t\<lparr>tunnelInfo := None\<rparr>" s e]
  by simp

lemma open_tunnel_fatal_first_report:
  assumes "m = pre @ ''Could not start Sauce Connect'' @ post"
  shows "launcher_callback mx (Failed (Val m)) s = (Reject (CouldNotStart m), s)
       \<and> open_tunnel st mx (Failed (Val m) # rest) t s
         = ([sauceOptions st (options t)], Rejected (CouldNotStart m),
            t\<lparr>tunnelInfo := None\<rparr>, s)"
proof -
  from assms have "could_not_start (Val m)"
    unfolding could_not_start_iff by blast
  then have "launcher_callback mx (Failed (Val m)) s = (Reject (CouldNotStart m), s)"
    using launcher_callback_fatal [of "Val m" mx s] by simp
  then show ?thesis by (simp add: open_tunnel_def)
qed

subsection \<open>The lock client\<close>

lemma poll_success_value:
  "Callback None v \<in> set (poll opts t0 rs) \<Longrightarrow> \<exists>tok. v = JObj [(''token'', tok)]"
proof (induction rs)
  case Nil
  then show ?case by simp
next
  case (Cons a rs)
  obtain r now where a: "a = (r, now)" by (cases a)
  show ?case
  proof (cases "claim_response r")
    case (Inl ex)
    with Cons a show ?thesis by (auto split: if_splits)
  next
    case (Inr cb)
    obtain e w where cb: "cb = (e, w)" by (cases cb)
    with Inr Cons.prems a have "e = None" "w = v" by auto
    with Inr cb show ?thesis
      by (auto simp: claim_response_def split: option.splits if_splits)
  qed
qed


section \<open>The claims\<close>

text \<open>
  C1. The claim: with the locks server set, a transport failure, a malformed body and an
  empty or rejecting document are all tolerated, \<open>acquire\<close> waiting the polling interval and
  asking again until the outage timeout has passed. The code at a rejected claim and at a
  transport failure received 10 ms after polling began, with the outage timeout at five
  minutes and an accepting reply ready for a second request: it calls back with the error
  at once, sets no timer and sends no second request.
\<close>

theorem acquire_calls_back_without_retry:
  "acquire (config_init\<lparr>locksServerLocation := Val ''http://locks:3000''\<rparr>) 0
     [(Reply None 200 (Some (JObj [(''accepted'', JBool False),
                                   (''message'', JStr ''Claim rejected. No VMs available.'')])), 10),
      (Reply None 200 (Some (JObj [(''accepted'', JBool True), (''token'', JStr ''abc'')])), 2520)]
   = [Http (Post ''http://locks:3000/claim'' 2500 (Form [])),
      Callback (Some NotAccepted) JUndefined]
   \<and> acquire (config_init\<lparr>locksServerLocation := Val ''http://locks:3000''\<rparr>) 0
     [(Reply (Some ''Error: ETIMEDOUT'') 0 None, 10),
      (Reply None 200 (Some (JObj [(''accepted'', JBool True), (''token'', JStr ''abc'')])), 2520)]
   = [Http (Post ''http://locks:3000/claim'' 2500 (Form [])),
      Callback (Some (TransportError ''Error: ETIMEDOUT'')) JUndefined]"
  by (simp add: acquire_def config_init_def claim_request_def claim_response_def)




text \<open>
  C3. The claim: with ten as \<open>MAX_CONNECT_RETRIES\<close>, the tenth transient failure of the
  process is the one that opens the circuit. The code in a fresh process, where
  \<open>connectFailures\<close> starts at 1: eight failures are retried, and the ninth opens the
  circuit and rejects, reporting 10 attempts; a tenth failure finds the circuit open.
\<close>

theorem ninth_failure_opens_circuit:
  "serve MAX_CONNECT_RETRIES (replicate 10 (Failed (Val ''Tunnel timed out''))) shared_init
   = ([Retry, Retry, Retry, Retry, Retry, Retry, Retry, Retry,
       Reject (FailedAfter 10), Reject Bailed],
      \<lparr>connectFailures = 11, BAILED = True\<rparr>)
   \<and> serve MAX_CONNECT_RETRIES (replicate 8 (Failed (Val ''Tunnel timed out''))) shared_init
   = ([Retry, Retry, Retry, Retry, Retry, Retry, Retry, Retry],
      \<lparr>connectFailures = 9, BAILED = False\<rparr>)"
  by (simp add: eval_nat_numeral launcher_callback_def transient_message
        MAX_CONNECT_RETRIES_def shared_init_def)

text \<open>
  C4. Whatever the token and whatever the outcome of the release request, and with or
  without a locks server, \<open>release\<close> calls its callback exactly once, and with no error.
\<close>

theorem release_calls_back_once:
  "filter is_callback (release opts token r) = [Callback None JUndefined]"
  by (simp add: release_def)

text \<open>
  C5. The claim: whenever the launcher reports the could-not-start error, \<open>open\<close> rejects
  at once with that error, without a retry and without a change to \<open>connectFailures\<close> and
  \<open>BAILED\<close>. The code when that report comes to the second attempt of an \<open>open\<close> call,
  after one transient failure: the completion function rejects with the message and leaves
  the retry state as the first failure left it, and the launcher is not invoked again, but
  the promise it rejects is the one of the inner \<open>connect\<close> call, and the promise that
  \<open>open\<close> returned stays pending. When the report comes to the first attempt, \<open>open\<close>
  does reject.
\<close>

theorem fatal_error_after_retry_leaves_open_pending:
  "open_tunnel \<lparr>tempDir = ''/tmp'', buildId = ''b1'', debug = False\<rparr> MAX_CONNECT_RETRIES
     [Failed (Val ''Tunnel timed out''),
      Failed (Val ''Error: Could not start Sauce Connect. Exit code 1'')]
     \<lparr>options = config_init, tunnelInfo = None\<rparr> shared_init
   = (replicate 2 (sauceOptions \<lparr>tempDir = ''/tmp'', buildId = ''b1'', debug = False\<rparr> config_init),
      Pending, \<lparr>options = config_init, tunnelInfo = None\<rparr>,
      \<lparr>connectFailures = 2, BAILED = False\<rparr>)
   \<and> launcher_callback MAX_CONNECT_RETRIES
       (Failed (Val ''Error: Could not start Sauce Connect. Exit code 1''))
       \<lparr>connectFailures = 2, BAILED = False\<rparr>
     = (Reject (CouldNotStart ''Error: Could not start Sauce Connect. Exit code 1''),
        \<lparr>connectFailures = 2, BAILED = False\<rparr>)
   \<and> open_tunnel \<lparr>tempDir = ''/tmp'', buildId = ''b1'', debug = False\<rparr> MAX_CONNECT_RETRIES
       [Failed (Val ''Error: Could not start Sauce Connect. Exit code 1'')]
       \<lparr>options = config_init, tunnelInfo = None\<rparr> shared_init
     = ([sauceOptions \<lparr>tempDir = ''/tmp'', buildId = ''b1'', debug = False\<rparr> config_init],
        Rejected (CouldNotStart ''Error: Could not start Sauce Connect. Exit code 1''),
        \<lparr>options = config_init, tunnelInfo = None\<rparr>,
        \<lparr>connectFailures = 1, BAILED = False\<rparr>)"
  by (simp add: open_tunnel_def launcher_callback_def could_not_start_def indexOf_def
        MAX_CONNECT_RETRIES_def shared_init_def eval_nat_numeral)

text \<open>
  C6. With a locks server set, \<open>release\<close> of any value issues one request, a POST to the
  release address whose JSON body is the object with the single field \<open>token\<close> holding
  that value as it was passed. In particular a value with which \<open>acquire\<close> called back
  without error (the object under which it wraps the token of the accepted claim), handed
  to \<open>wrapup\<close> as it is, is the \<open>token\<close> field of the body of the release request.
\<close>

theorem release_sends_token_unmodified:
  assumes "truthy_str (locksServerLocation opts)"
  shows "filter is_http (release opts tk r)
           = [Http (Post (js_string (locksServerLocation opts) @ ''/release'')
                         (locksRequestTimeout opts) (Json (JObj [(''token'', tk)])))]
       \<and> (Callback None v \<in> set (acquire opts start rs) \<longrightarrow>
            (\<exists>tok. v = JObj [(''token'', tok)])
          \<and> filter is_http (wrapup opts v r)
              = [Http (Post (js_string (locksServerLocation opts) @ ''/release'')
                            (locksRequestTimeout opts) (Json (JObj [(''token'', v)])))])"
proof -
  have rel: "filter is_http (release opts x r)
           = [Http (Post (js_string (locksServerLocation opts) @ ''/release'')
                         (locksRequestTimeout opts) (Json (JObj [(''token'', x)])))]" for x
    using assms by (simp add: release_def release_request_def)
  have "\<exists>tok. v = JObj [(''token'', tok)]" if "Callback None v \<in> set (acquire opts start rs)"
    using that assms poll_success_value [of v opts start rs] by (simp add: acquire_def)
  with rel show ?thesis by (simp add: wrapup_def)
qed

theorem release_sends_token_unmodified_witness:
  "truthy_str (locksServerLocation (config_init\<lparr>locksServerLocation := Val ''http://locks:3000''\<rparr>))
   \<and> Callback None (JObj [(''token'', JStr ''abc'')])
       \<in> set (acquire (config_init\<lparr>locksServerLocation := Val ''http://locks:3000''\<rparr>) 0
               [(Reply None 200 (Some (JObj [(''accepted'', JBool True),
                                             (''token'', JStr ''abc'')])), 10)])
   \<and> filter is_http (wrapup (config_init\<lparr>locksServerLocation := Val ''http://locks:3000''\<rparr>)
                       (JObj [(''token'', JStr ''abc'')]) (Reply (Some ''Error: ETIMEDOUT'') 0 None))
     = [Http (Post ''http://locks:3000/release'' 2500
                (Json (JObj [(''token'', JObj [(''token'', JStr ''abc'')])])))]"
proof -
  let ?opts = "config_init\<lparr>locksServerLocation := Val ''http://locks:3000''\<rparr>"
  have h: "truthy_str (locksServerLocation ?opts)" by simp
  have a: "Callback None (JObj [(''token'', JStr ''abc'')])
       \<in> set (acquire ?opts 0
               [(Reply None 200 (Some (JObj [(''accepted'', JBool True),
                                             (''token'', JStr ''abc'')])), 10)])"
    by (simp add: acquire_def claim_response_def)
  from release_sends_token_unmodified [where opts = ?opts and tk = "JStr ''abc''"
      and v = "JObj [(''token'', JStr ''abc'')]" and start = 0
      and rs = "[(Reply None 200 (Some (JObj [(''accepted'', JBool True),
                                             (''token'', JStr ''abc'')])), 10)]"
      and r = "Reply (Some ''Error: ETIMEDOUT'') 0 None", OF h] a
  have "filter is_http (wrapup ?opts (JObj [(''token'', JStr ''abc'')])
                          (Reply (Some ''Error: ETIMEDOUT'') 0 None))
     = [Http (Post ''http://locks:3000/release'' 2500
                (Json (JObj [(''token'', JObj [(''token'', JStr ''abc'')])])))]"
    by (simp add: config_init_def)
  with h a show ?thesis by blast
qed

text \<open>
  C7. The claim: when \<open>fastFailRegexps\<close> is set in the options, the launcher is started
  with that value. The code with \<open>fastFailRegexps\<close> set to a pattern: the launcher's options
  carry the property \<open>fastFailRegexps\<close> with the value \<open>undefined\<close>, read from the
  misspelt \<open>fastFailRegexpss\<close>, on every attempt.
\<close>

theorem fastFailRegexps_not_passed_on:
  "so_fastFailRegexps
     (sauceOptions \<lparr>tempDir = ''/tmp'', buildId = ''b1'', debug = False\<rparr>
        (config_init\<lparr>username := Val ''u'', accessKey := Val ''k'',
                     sauceTunnelId := Val ''t1'', useTunnels := Val True,
                     fastFailRegexps := Val ''Tunnel could not be started''\<rparr>))
   = Some Undefined
   \<and> fst (open_tunnel \<lparr>tempDir = ''/tmp'', buildId = ''b1'', debug = False\<rparr> MAX_CONNECT_RETRIES
        [Failed (Val ''Tunnel timed out''), Started 4]
        \<lparr>options = config_init\<lparr>username := Val ''u'', accessKey := Val ''k'',
                     sauceTunnelId := Val ''t1'', useTunnels := Val True,
                     fastFailRegexps := Val ''Tunnel could not be started''\<rparr>,
         tunnelInfo = None\<rparr> shared_init)
   = replicate 2 \<lparr>so_username = Val ''u'', so_accessKey = Val ''k'',
        tunnelIdentifier = Val ''t1'', readyFileId = Val ''t1'',
        verbose = False, verboseDebugging = False,
        logfile = ''/tmp/build-b1_sauceconnect_t1.log'', port = 56000,
        so_fastFailRegexps = Some Undefined\<rparr>"
  by (simp add: sauceOptions_def Let_def fastFailRegexpss_def config_init_def logFilePath_def
        BASE_SELENIUM_PORT_OFFSET_def open_tunnel_def launcher_callback_def
        transient_message MAX_CONNECT_RETRIES_def shared_init_def eval_nat_numeral)

text \<open>
  C8. With no locks server set (the location is \<open>undefined\<close>, \<open>null\<close> or empty), \<open>acquire\<close>
  does nothing but call its callback with no arguments, and \<open>release\<close> does nothing but
  call its callback: neither issues a request or sets a timer.
\<close>

theorem no_locks_server_no_network:
  assumes "\<not> truthy_str (locksServerLocation opts)"
  shows "acquire opts start rs = [Callback None JUndefined]
       \<and> release opts tk r = [Callback None JUndefined]"
  using assms by (simp add: acquire_def release_def)

theorem no_locks_server_no_network_witness:
  "\<not> truthy_str (locksServerLocation config_init)
   \<and> acquire config_init 0
       [(Reply None 200 (Some (JObj [(''accepted'', JBool True), (''token'', JStr ''abc'')])), 10)]
     = [Callback None JUndefined]
   \<and> release config_init (JStr ''abc'') (Reply None 200 None) = [Callback None JUndefined]"
proof -
  have h: "\<not> truthy_str (locksServerLocation config_init)" by (simp add: config_init_def)
  from no_locks_server_no_network [OF h] h show ?thesis by simp
qed

text \<open>
  C9. \<open>close\<close> on a tunnel with no process handle, as any tunnel is whose \<open>open\<close> has
  rejected, resolves at once and calls no process; with a handle it asks that process,
  once, to close, and is resolved exactly when the launcher has acknowledged; in both
  cases its promise is never rejected.
\<close>

theorem close_waits_for_acknowledgment:
  "(tunnelInfo t = None \<longrightarrow>
      (close_tunnel t acked :: proc list \<times> 'e promise) = ([], Resolved))
   \<and> (fst (snd (open_tunnel st mx rs t s)) = Rejected rj \<longrightarrow>
      (close_tunnel (fst (snd (snd (open_tunnel st mx rs t s)))) acked :: proc list \<times> 'e promise)
        = ([], Resolved))
   \<and> (tunnelInfo t = Some p \<longrightarrow>
      (close_tunnel t False :: proc list \<times> 'e promise) = ([p], Pending)
      \<and> (close_tunnel t True :: proc list \<times> 'e promise) = ([p], Resolved))
   \<and> snd (close_tunnel t acked) \<noteq> Rejected (e :: 'e)"
  using open_tunnel_rejected_no_handle [of st mx rs t s rj]
  by (simp add: close_tunnel_def split: option.split)

theorem close_waits_for_acknowledgment_witness:
  "tunnelInfo \<lparr>options = config_init, tunnelInfo = None\<rparr> = None
   \<and> (close_tunnel \<lparr>options = config_init, tunnelInfo = None\<rparr> False :: proc list \<times> string promise)
       = ([], Resolved)
   \<and> fst (snd (open_tunnel \<lparr>tempDir = ''/tmp'', buildId = ''b1'', debug = False\<rparr> 10
         [Failed (Val ''Error: Could not start Sauce Connect'')]
         \<lparr>options = config_init, tunnelInfo = Some 4\<rparr> shared_init))
       = Rejected (CouldNotStart ''Error: Could not start Sauce Connect'')
   \<and> (close_tunnel (fst (snd (snd (open_tunnel \<lparr>tempDir = ''/tmp'', buildId = ''b1'', debug = False\<rparr> 10
         [Failed (Val ''Error: Could not start Sauce Connect'')]
         \<lparr>options = config_init, tunnelInfo = Some 4\<rparr> shared_init)))) False
        :: proc list \<times> string promise) = ([], Resolved)
   \<and> tunnelInfo \<lparr>options = config_init, tunnelInfo = Some 4\<rparr> = Some 4
   \<and> (close_tunnel \<lparr>options = config_init, tunnelInfo = Some 4\<rparr> False :: proc list \<times> string promise)
       = ([4], Pending)
   \<and> (close_tunnel \<lparr>options = config_init, tunnelInfo = Some 4\<rparr> True :: proc list \<times> string promise)
       = ([4], Resolved)"
proof -
  let ?st = "\<lparr>tempDir = ''/tmp'', buildId = ''b1'', debug = False\<rparr>"
  let ?rs = "[Failed (Val ''Error: Could not start Sauce Connect'')]"
  let ?t1 = "\<lparr>options = config_init, tunnelInfo = Some 4\<rparr>"
  have h0: "tunnelInfo \<lparr>options = config_init, tunnelInfo = None\<rparr> = None" by simp
  have h1: "tunnelInfo ?t1 = Some 4" by simp
  have h2: "fst (snd (open_tunnel ?st 10 ?rs ?t1 shared_init))
              = Rejected (CouldNotStart ''Error: Could not start Sauce Connect'')"
    by (simp add: open_tunnel_def launcher_callback_def could_not_start_def indexOf_def)
  from close_waits_for_acknowledgment
         [where t = "\<lparr>options = config_init, tunnelInfo = None\<rparr>" and acked = False
            and 'e = string] h0
  have a: "(close_tunnel \<lparr>options = config_init, tunnelInfo = None\<rparr> False
              :: proc list \<times> string promise) = ([], Resolved)"
    by blast
  from close_waits_for_acknowledgment
         [where t = ?t1 and p = 4 and st = ?st and mx = 10 and rs = ?rs and s = shared_init
            and rj = "CouldNotStart ''Error: Could not start Sauce Connect''"
            and acked = False and 'e = string] h1 h2
  have b: "(close_tunnel (fst (snd (snd (open_tunnel ?st 10 ?rs ?t1 shared_init)))) False
              :: proc list \<times> string promise) = ([], Resolved)
      \<and> (close_tunnel ?t1 False :: proc list \<times> string promise) = ([4], Pending)
      \<and> (close_tunnel ?t1 True :: proc list \<times> string promise) = ([4], Resolved)"
    by blast
  from h0 h1 h2 a b show ?thesis by blast
qed

text \<open>
  C10. \<open>validateConfig\<close> checks only when the argument \<open>sauce_browsers\<close> or \<open>sauce_browser\<close>
  is given (is truthy). With neither, it returns the config it read from the environment
  and the arguments, without throwing and without generating a tunnel id, whatever the
  credentials and the tunnel flags are. With one of them, it throws when the user name or
  the access key is missing, else when \<open>sauce_create_tunnels\<close> comes with
  \<open>sauce_tunnel_id\<close>, else when it comes with \<open>shared_sauce_parent_account\<close>; otherwise
  it returns the config, with a generated tunnel id when tunnels are to be created.
\<close>

theorem validateConfig_checks_only_with_browser:
  "(\<not> truthy_str (sauce_browsers av) \<and> \<not> truthy_str (sauce_browser av) \<longrightarrow>
      validateConfig g av ev c = Inr (read_config av ev c))
   \<and> (truthy_str (sauce_browsers av) \<or> truthy_str (sauce_browser av) \<longrightarrow>
      validateConfig g av ev c =
        (if \<not> truthy_str (SAUCE_USERNAME ev) \<or> \<not> truthy_str (SAUCE_ACCESS_KEY ev)
           then Inl MissingConfiguration
         else if truthy_bool (sauce_create_tunnels av) \<and> truthy_str (sauce_tunnel_id av)
           then Inl OnlyOneTunnelArg
         else if truthy_bool (sauce_create_tunnels av)
                 \<and> truthy_str (shared_sauce_parent_account av)
           then Inl SharedParentNeedsTunnelId
         else if truthy_bool (sauce_create_tunnels av)
           then Inr ((read_config av ev c)\<lparr>sauceTunnelId := Val g\<rparr>)
         else Inr (read_config av ev c)))"
proof -
  have chk: "check_parameters (read_config av ev c)
               = (truthy_str (SAUCE_USERNAME ev) \<and> truthy_str (SAUCE_ACCESS_KEY ev))"
    by (simp add: check_parameters_def parameterWarnings_def read_config_def)
  have tid: "sauceTunnelId (read_config av ev c) = sauce_tunnel_id av"
    by (simp add: read_config_def)
  have use: "truthy_bool (useTunnels (read_config av ev c)) = truthy_bool (sauce_create_tunnels av)"
    by (simp add: read_config_def)
  show ?thesis
    unfolding validateConfig_def Let_def chk tid use by auto
qed

theorem validateConfig_checks_only_with_browser_witness:
  "\<not> truthy_str (sauce_browsers \<lparr>sauce_browsers = Undefined, sauce_browser = Val [],
        sauce_create_tunnels = Val True, sauce_tunnel_id = Val ''t1'',
        shared_sauce_parent_account = Val ''parent''\<rparr>)
   \<and> \<not> truthy_str (sauce_browser \<lparr>sauce_browsers = Undefined, sauce_browser = Val [],
        sauce_create_tunnels = Val True, sauce_tunnel_id = Val ''t1'',
        shared_sauce_parent_account = Val ''parent''\<rparr>)
   \<and> validateConfig ''guid-1''
        \<lparr>sauce_browsers = Undefined, sauce_browser = Val [],
          sauce_create_tunnels = Val True, sauce_tunnel_id = Val ''t1'',
          shared_sauce_parent_account = Val ''parent''\<rparr>
        \<lparr>SAUCE_USERNAME = Undefined, SAUCE_ACCESS_KEY = Undefined,
          SAUCE_CONNECT_VERSION = Undefined, SAUCE_TUNNEL_CLOSE_TIMEOUT = Undefined,
          SAUCE_TUNNEL_FAST_FAIL_REGEXPS = Undefined, LOCKS_SERVER = Val ''http://locks:3000/''\<rparr>
        config_init
     = Inr \<lparr>username = Undefined, accessKey = Undefined, sauceConnectVersion = Undefined,
            sauceTunnelId = Val ''t1'', sharedSauceParentAccount = Val ''parent'',
            tunnelTimeout = Undefined, useTunnels = Val True, fastFailRegexps = Undefined,
            locksServerLocation = Val ''http://locks:3000'', maxTunnels = 1,
            locksOutageTimeout = 300000, locksPollingInterval = 2500,
            locksRequestTimeout = 2500\<rparr>
   \<and> truthy_str (sauce_browser \<lparr>sauce_browsers = Undefined, sauce_browser = Val ''chrome'',
        sauce_create_tunnels = Val True, sauce_tunnel_id = Val ''t1'',
        shared_sauce_parent_account = Undefined\<rparr>)
   \<and> validateConfig ''guid-1''
        \<lparr>sauce_browsers = Undefined, sauce_browser = Val ''chrome'',
          sauce_create_tunnels = Val True, sauce_tunnel_id = Val ''t1'',
          shared_sauce_parent_account = Undefined\<rparr>
        \<lparr>SAUCE_USERNAME = Val ''u'', SAUCE_ACCESS_KEY = Val ''k'',
          SAUCE_CONNECT_VERSION = Undefined, SAUCE_TUNNEL_CLOSE_TIMEOUT = Undefined,
          SAUCE_TUNNEL_FAST_FAIL_REGEXPS = Undefined, LOCKS_SERVER = Undefined\<rparr>
        config_init
     = Inl OnlyOneTunnelArg"
proof -
  let ?av0 = "\<lparr>sauce_browsers = Undefined, sauce_browser = Val [],
        sauce_create_tunnels = Val True, sauce_tunnel_id = Val ''t1'',
        shared_sauce_parent_account = Val ''parent''\<rparr>"
  let ?ev0 = "\<lparr>SAUCE_USERNAME = Undefined, SAUCE_ACCESS_KEY = Undefined,
          SAUCE_CONNECT_VERSION = Undefined, SAUCE_TUNNEL_CLOSE_TIMEOUT = Undefined,
          SAUCE_TUNNEL_FAST_FAIL_REGEXPS = Undefined, LOCKS_SERVER = Val ''http://locks:3000/''\<rparr>"
  let ?av1 = "\<lparr>sauce_browsers = Undefined, sauce_browser = Val ''chrome'',
        sauce_create_tunnels = Val True, sauce_tunnel_id = Val ''t1'',
        shared_sauce_parent_account = Undefined\<rparr>"
  let ?ev1 = "\<lparr>SAUCE_USERNAME = Val ''u'', SAUCE_ACCESS_KEY = Val ''k'',
          SAUCE_CONNECT_VERSION = Undefined, SAUCE_TUNNEL_CLOSE_TIMEOUT = Undefined,
          SAUCE_TUNNEL_FAST_FAIL_REGEXPS = Undefined, LOCKS_SERVER = Undefined\<rparr>"
  have h0: "\<not> truthy_str (sauce_browsers ?av0) \<and> \<not> truthy_str (sauce_browser ?av0)" by simp
  have h1: "truthy_str (sauce_browsers ?av1) \<or> truthy_str (sauce_browser ?av1)" by simp
  from validateConfig_checks_only_with_browser
         [where av = ?av0 and ev = ?ev0 and g = "''guid-1''" and c = config_init] h0
  have a: "validateConfig ''guid-1'' ?av0 ?ev0 config_init = Inr (read_config ?av0 ?ev0 config_init)"
    by blast
  from validateConfig_checks_only_with_browser
         [where av = ?av1 and ev = ?ev1 and g = "''guid-1''" and c = config_init] h1
  have b: "validateConfig ''guid-1'' ?av1 ?ev1 config_init = Inl OnlyOneTunnelArg"
    by simp
  have r: "read_config ?av0 ?ev0 config_init
     = \<lparr>username = Undefined, accessKey = Undefined, sauceConnectVersion = Undefined,
            sauceTunnelId = Val ''t1'', sharedSauceParentAccount = Val ''parent'',
            tunnelTimeout = Undefined, useTunnels = Val True, fastFailRegexps = Undefined,
            locksServerLocation = Val ''http://locks:3000'', maxTunnels = 1,
            locksOutageTimeout = 300000, locksPollingInterval = 2500,
            locksRequestTimeout = 2500\<rparr>"
    by (simp add: read_config_def config_init_def)
  from a b r h0 h1 show ?thesis by simp
qed

end
